theory Spec2Isabelle
  imports Main
begin

section \<open>Import diagnostics of the Deno language server (server/src/diagnostics.ts)\<close>

text \<open>
  The module has three parts: the table \<open>FixItems\<close> with the code-action handler that reads
  it, the walk \<open>delintNode\<close> that collects the string literals naming a module, and the
  loop of \<open>generate\<close> that turns every collected literal into diagnostics.

  Strings are modelled as \<open>string\<close>; \<open>length\<close> stands for JavaScript's \<open>.length\<close>, which
  agrees with it on ASCII text. Offsets, lines and columns are JavaScript numbers that
  only ever hold integers here, so they are \<open>int\<close>.
\<close>

subsection \<open>Data\<close>

text \<open>\<open>interface Fix\<close>.\<close>

record Fix =
  title :: string
  command :: string

text \<open>\<open>enum DiagnosticCode\<close> and the number each member stands for.\<close>

datatype DiagnosticCode =
  InvalidModule | MissingExtension | PreferHTTPS | LocalModuleNotExist | RemoteModuleNotExist

fun DiagnosticCode_value :: "DiagnosticCode \<Rightarrow> int" where
  "DiagnosticCode_value InvalidModule = 1001"
| "DiagnosticCode_value MissingExtension = 1002"
| "DiagnosticCode_value PreferHTTPS = 1003"
| "DiagnosticCode_value LocalModuleNotExist = 1004"
| "DiagnosticCode_value RemoteModuleNotExist = 1005"

text \<open>
  The language-server protocol types the module builds: positions, ranges, diagnostics,
  commands and code actions. The \<open>code\<close> of a diagnostic is the number \<open>generate\<close> gave it:
  the handler only looks at diagnostics whose \<open>source\<close> is this server.
\<close>

record Position =
  line :: int
  character :: int

record Range =
  range_start :: Position
  range_end :: Position

datatype DiagnosticSeverity = Error | Warning | Information | Hint

record Diagnostic =
  diag_range :: Range
  message :: string
  severity :: DiagnosticSeverity
  code :: int
  source :: string

datatype argument = ArgUri string | ArgRange Range

record Command =
  command_title :: string
  command_name :: string
  command_arguments :: "argument list"

datatype CodeActionKind = QuickFix

record CodeAction =
  action_title :: string
  action_command :: Command
  action_kind :: CodeActionKind

text \<open>The request the code-action handler receives: \<open>params.context.diagnostics\<close> and
  \<open>params.textDocument.uri\<close>.\<close>

record CodeActionParams =
  context_diagnostics :: "Diagnostic list"
  textDocument_uri :: string

text \<open>
  A string literal of the syntax tree, the only node whose span and text the module reads:
  \<open>pos\<close> (the start of the node, leading trivia included), \<open>end\<close> (just past the closing
  quote) and \<open>text\<close> (the content without the quotes).
\<close>

record LiteralLikeNode =
  node_pos :: int
  node_end :: int
  node_text :: string

text \<open>
  The syntax tree, with the node kinds \<open>delintNode\<close> tells apart and the properties it
  reads, typed as the TypeScript declarations type them: \<open>expression\<close>, \<open>arguments\<close>,
  \<open>moduleReference\<close> and the \<open>moduleSpecifier\<close> of an import are always there, the
  \<open>moduleSpecifier\<close> of an export is optional. A node of any other kind is an
  \<open>OtherNode\<close>, named for the reader, with the children \<open>ts.forEachChild\<close> visits. Child
  tokens that have no children and no case in the \<open>switch\<close> (the \<open>?.\<close> of a call) are
  left out: the walk does nothing at them.
\<close>

datatype node =
    StringLiteral LiteralLikeNode
  | ImportKeyword
  | Identifier string
  | CallExpression node "node list" "node list"
      \<comment> \<open>expression, typeArguments, arguments\<close>
  | ExternalModuleReference node
      \<comment> \<open>expression\<close>
  | ImportEqualsDeclaration "node list" node node
      \<comment> \<open>decorators and modifiers, name, moduleReference\<close>
  | ImportDeclaration "node list" "node option" node
      \<comment> \<open>decorators and modifiers, importClause, moduleSpecifier\<close>
  | ExportDeclaration "node list" "node option" "node option"
      \<comment> \<open>decorators and modifiers, exportClause, moduleSpecifier\<close>
  | OtherNode string "node list"

text \<open>\<open>ts.isStringLiteral\<close>, returning the literal when the node is one.\<close>

fun isStringLiteral :: "node \<Rightarrow> LiteralLikeNode option" where
  "isStringLiteral (StringLiteral l) = Some l"
| "isStringLiteral _ = None"

text \<open>
  Reading the property \<open>expression\<close> of a node, as \<open>ref.expression\<close> does on a module
  reference: \<open>undefined\<close> where the kind has none, as for the entity name of
  \<open>import a = b.c\<close>.
\<close>

fun expression :: "node \<Rightarrow> node option" where
  "expression (CallExpression e targs args) = Some e"
| "expression (ExternalModuleReference e) = Some e"
| "expression _ = None"

text \<open>The children in the order \<open>ts.forEachChild\<close> calls back on them.\<close>

fun forEachChild :: "node \<Rightarrow> node list" where
  "forEachChild (StringLiteral l) = []"
| "forEachChild ImportKeyword = []"
| "forEachChild (Identifier x) = []"
| "forEachChild (CallExpression e targs args) = e # targs @ args"
| "forEachChild (ExternalModuleReference e) = [e]"
| "forEachChild (ImportEqualsDeclaration mods name ref) = mods @ [name, ref]"
| "forEachChild (ImportDeclaration mods clause spec) =
     mods @ (case clause of None \<Rightarrow> [] | Some c \<Rightarrow> [c]) @ [spec]"
| "forEachChild (ExportDeclaration mods clause spec) =
     mods @ (case clause of None \<Rightarrow> [] | Some c \<Rightarrow> [c]) @
     (case spec of None \<Rightarrow> [] | Some s \<Rightarrow> [s])"
| "forEachChild (OtherNode k children) = children"

subsection \<open>The fix table and the code-action handler\<close>

text \<open>\<open>FixItems\<close>: an object keyed by the number of the diagnostic code.\<close>

definition FixItems :: "int \<rightharpoonup> Fix" where
  "FixItems = map_of
     [(DiagnosticCode_value MissingExtension,
         \<lparr>title = ''Add `.ts` extension.'', command = ''deno._add_missing_extension''\<rparr>),
      (DiagnosticCode_value PreferHTTPS,
         \<lparr>title = ''Use HTTPS module.'', command = ''deno._use_https_module''\<rparr>),
      (DiagnosticCode_value LocalModuleNotExist,
         \<lparr>title = ''Create module.'', command = ''deno._create_local_module''\<rparr>),
      (DiagnosticCode_value RemoteModuleNotExist,
         \<lparr>title = ''Fetch module.'', command = ''deno._fetch_remote_module''\<rparr>)]"

text \<open>The body of \<open>.map(v => ...)\<close> in the handler: \<open>None\<close> is the \<open>undefined\<close> it
  returns for a diagnostic without a fix, which the following \<open>.filter(v => v)\<close> drops.\<close>

definition codeActionFor :: "string \<Rightarrow> string \<Rightarrow> Diagnostic \<Rightarrow> CodeAction option" where
  "codeActionFor name uri v =
     (case FixItems (code v) of
        None \<Rightarrow> None
      | Some fixItem \<Rightarrow>
          Some \<lparr>action_title = title fixItem @ '' ('' @ name @ '')'',
                action_command =
                  \<lparr>command_title = title fixItem,
                   command_name = command fixItem,
                   command_arguments =
                     [ArgUri uri,
                      ArgRange
                        \<lparr>range_start =
                           \<lparr>line = line (range_start (diag_range v)),
                            character = character (range_start (diag_range v)) + 1\<rparr>,
                         range_end =
                           \<lparr>line = line (range_end (diag_range v)),
                            character = character (range_end (diag_range v)) - 1\<rparr>\<rparr>]\<rparr>,
                action_kind = QuickFix\<rparr>)"

text \<open>The handler registered with \<open>connection.onCodeAction\<close>; \<open>None\<close> is its bare
  \<open>return\<close> when no diagnostic of the request is this server's.\<close>

definition onCodeAction :: "string \<Rightarrow> CodeActionParams \<Rightarrow> CodeAction list option" where
  "onCodeAction name params =
     (let denoDiagnostics = filter (\<lambda>v. source v = name) (context_diagnostics params)
      in if denoDiagnostics = [] then None
         else Some (List.map_filter (codeActionFor name (textDocument_uri params)) denoDiagnostics))"

subsection \<open>Collecting the module literals\<close>

text \<open>The \<open>switch\<close> of \<open>delintNode\<close>: the literal the node names a module by, if any.\<close>

fun moduleNode :: "node \<Rightarrow> LiteralLikeNode option" where
  "moduleNode (CallExpression e targs args) =
     (case e of
        ImportKeyword \<Rightarrow> (case args of [] \<Rightarrow> None | argv # rest \<Rightarrow> isStringLiteral argv)
      | _ \<Rightarrow> None)"
| "moduleNode (ImportEqualsDeclaration mods name ref) =
     (case expression ref of None \<Rightarrow> None | Some e \<Rightarrow> isStringLiteral e)"
| "moduleNode (ImportDeclaration mods clause spec) = isStringLiteral spec"
| "moduleNode (ExportDeclaration mods clause exportSpec) =
     (case exportSpec of None \<Rightarrow> None | Some s \<Rightarrow> isStringLiteral s)"
| "moduleNode _ = None"

text \<open>\<open>delintNode\<close>, with the array \<open>moduleNodes\<close> it pushes to passed in and returned:
  the node's own literal first, then the children from left to right.\<close>

function delintNode :: "node \<Rightarrow> LiteralLikeNode list \<Rightarrow> LiteralLikeNode list" where
  "delintNode n moduleNodes =
     fold delintNode (forEachChild n)
       (case moduleNode n of None \<Rightarrow> moduleNodes | Some m \<Rightarrow> moduleNodes @ [m])"
  by pat_completeness auto
termination
proof (relation "measure (\<lambda>(n, moduleNodes). size n)")
  show "wf (measure (\<lambda>(n, moduleNodes). size n))"
    by simp
next
  fix n :: node and moduleNodes :: "LiteralLikeNode list" and c :: node
    and acc :: "LiteralLikeNode list"
  assume c: "c \<in> set (forEachChild n)"
  have le: "size x \<le> size_list size xs" if "x \<in> set xs" for x :: node and xs
    using that by (induction xs) auto
  from c have "size c < size n"
    by (cases n) (auto split: option.splits dest: le)
  then show "((c, acc), (n, moduleNodes)) \<in> measure (\<lambda>(n, moduleNodes). size n)"
    by simp
qed

definition delint :: "node \<Rightarrow> LiteralLikeNode list" where
  "delint SourceFile = delintNode SourceFile []"

text \<open>
  A tree without any of the four constructs the \<open>switch\<close> of \<open>delintNode\<close> recognises: no
  call whose callee is the \<open>import\<close> keyword, no import-equals declaration, no import
  declaration and no export declaration, at any depth. A call of \<open>require\<close> is a
  \<open>CallExpression\<close> whose callee is an identifier.
\<close>

fun noModuleForm :: "node \<Rightarrow> bool" where
  "noModuleForm (StringLiteral l) = True"
| "noModuleForm ImportKeyword = True"
| "noModuleForm (Identifier x) = True"
| "noModuleForm (CallExpression e targs args) =
     (e \<noteq> ImportKeyword \<and> noModuleForm e \<and> (\<forall>c \<in> set targs. noModuleForm c) \<and>
      (\<forall>c \<in> set args. noModuleForm c))"
| "noModuleForm (ExternalModuleReference e) = noModuleForm e"
| "noModuleForm (ImportEqualsDeclaration mods name ref) = False"
| "noModuleForm (ImportDeclaration mods clause spec) = False"
| "noModuleForm (ExportDeclaration mods clause spec) = False"
| "noModuleForm (OtherNode k children) = (\<forall>c \<in> set children. noModuleForm c)"

subsection \<open>The checks on one module literal\<close>

text \<open>
  The regular expressions, each as the test it performs. A \<open>.\<close> of a JavaScript pattern
  matches every character but a line terminator, \<open>^\<close> and \<open>$\<close> (no \<open>m\<close> flag) match
  at the two ends of the string only.
\<close>

definition isLineTerminator :: "char \<Rightarrow> bool" where
  "isLineTerminator c = (c = CHR 0x0A \<or> c = CHR 0x0D)"

definition startsWith :: "string \<Rightarrow> string \<Rightarrow> bool" where
  "startsWith p s = (take (length p) s = p)"

text \<open>\<open>/^\..+/.test(text)\<close>: a dot, then at least one character that \<open>.\<close> matches.\<close>

definition isRelativeModule :: "string \<Rightarrow> bool" where
  "isRelativeModule t =
     (case t of c # d # rest \<Rightarrow> c = CHR ''.'' \<and> \<not> isLineTerminator d | _ \<Rightarrow> False)"

text \<open>\<open>/^https?:\/\/.*/.test(text)\<close>: the trailing \<open>.*\<close> also matches nothing.\<close>

definition isRemoteModule :: "string \<Rightarrow> bool" where
  "isRemoteModule t = (startsWith ''http://'' t \<or> startsWith ''https://'' t)"

text \<open>\<open>/^https:\/\//.test(text)\<close>.\<close>

definition isHTTPS :: "string \<Rightarrow> bool" where
  "isHTTPS t = startsWith ''https://'' t"

text \<open>The class \<open>[a-zA-Z\d]\<close>.\<close>

definition isAlnum :: "char \<Rightarrow> bool" where
  "isAlnum c = (c \<in> set ''abcdefghijklmnopqrstuvwxyzABCDEFGHIJKLMNOPQRSTUVWXYZ0123456789'')"

text \<open>
  \<open>text.match(/\.[a-zA-Z\d]+$/)\<close>: the match starts at the leftmost position where a dot
  is followed by one or more characters of the class up to the end of the string;
  \<open>None\<close> is the \<open>null\<close> of no match, for which \<open>|| []\<close> leaves \<open>extensionName\<close>
  \<open>undefined\<close>.
\<close>

fun extensionName :: "string \<Rightarrow> string option" where
  "extensionName [] = None"
| "extensionName (c # cs) =
     (if c = CHR ''.'' \<and> cs \<noteq> [] \<and> list_all isAlnum cs then Some (c # cs)
      else extensionName cs)"

definition validExtensionNameMap :: "string \<rightharpoonup> bool" where
  "validExtensionNameMap = map_of
     [(''.ts'', True), (''.tsx'', True), (''.js'', True), (''.jsx'', True),
      (''.json'', True), (''.wasm'', True)]"

text \<open>\<open>validExtensionNameMap[extensionName]\<close> read as a condition: an \<open>undefined\<close> key
  is looked up as the property \<open>"undefined"\<close>, and a missing property is falsy.\<close>

definition validExtension :: "string option \<Rightarrow> bool" where
  "validExtension e =
     (case validExtensionNameMap (case e of None \<Rightarrow> ''undefined'' | Some x \<Rightarrow> x) of
        None \<Rightarrow> False
      | Some b \<Rightarrow> b)"

subsection \<open>The services \<open>generate\<close> calls\<close>

text \<open>What an awaited call rejects with.\<close>

datatype exn = Rejected string

record WorkspaceConfig =
  enable :: bool

text \<open>The result of \<open>deno.resolveModule\<close>, with the three properties the loop reads.\<close>

record DenoModule =
  filepath :: string
  raw :: string
  remote :: bool

record TextDocument =
  uri :: string
  languageId :: string
  version :: int
  getText :: string

text \<open>
  The collaborators of \<open>generate\<close> that live outside the module, taken as parameters:
  \<open>bridge.getWorkspaceConfig\<close> and \<open>deno.resolveModule\<close> are awaited and may reject;
  \<open>ts.createSourceFile\<close> is called inside \<open>try\<close>, \<open>None\<close> standing for its throwing;
  \<open>positionAt\<close> is the document's method; \<open>dirname\<close> is
  \<open>path.dirname(URI.parse(uri).path)\<close>; \<open>fileExists\<close> is \<open>ts.sys.fileExists\<close>.
\<close>

record services =
  getWorkspaceConfig :: "string \<Rightarrow> exn + WorkspaceConfig"
  createSourceFile :: "string \<Rightarrow> string \<Rightarrow> node option"
  positionAt :: "TextDocument \<Rightarrow> int \<Rightarrow> Position"
  dirname :: "string \<Rightarrow> string"
  resolveModule :: "string \<Rightarrow> string \<Rightarrow> exn + DenoModule"
  fileExists :: "string \<Rightarrow> bool"

subsection \<open>\<open>generate\<close>\<close>

text \<open>\<open>Diagnostic.create(range, message, severity, code, source)\<close>.\<close>

definition Diagnostic_create ::
  "Range \<Rightarrow> string \<Rightarrow> DiagnosticSeverity \<Rightarrow> DiagnosticCode \<Rightarrow> string \<Rightarrow> Diagnostic" where
  "Diagnostic_create r msg sev c src =
     \<lparr>diag_range = r, message = msg, severity = sev, code = DiagnosticCode_value c,
      source = src\<rparr>"

text \<open>The range of a module literal: the first two statements of the loop body.\<close>

definition numberOfSpaces :: "LiteralLikeNode \<Rightarrow> int" where
  "numberOfSpaces m = \<bar>node_end m - node_pos m - (int (length (node_text m)) + 2)\<bar>"

definition moduleRange :: "services \<Rightarrow> TextDocument \<Rightarrow> LiteralLikeNode \<Rightarrow> Range" where
  "moduleRange sv document m =
     \<lparr>range_start = positionAt sv document (node_pos m + numberOfSpaces m),
      range_end = positionAt sv document (node_end m)\<rparr>"

text \<open>
  The body of \<open>for (const moduleNode of moduleNodes)\<close>. The array
  \<open>diagnosticsForThisDocument\<close> is passed in and returned; a rejected
  \<open>deno.resolveModule\<close> leaves the loop and \<open>generate\<close> with it.
\<close>

definition generate_body ::
  "services \<Rightarrow> string \<Rightarrow> TextDocument \<Rightarrow> string \<Rightarrow> Diagnostic list \<Rightarrow> LiteralLikeNode
     \<Rightarrow> exn + Diagnostic list" where
  "generate_body sv name document dir ds0 m =
     (let range = moduleRange sv document m;
          ds1 = (if \<not> isRelativeModule (node_text m) \<and> \<not> isRemoteModule (node_text m)
                 then ds0 @ [Diagnostic_create range
                        ''Deno only supports importting `relative/HTTP` module.''
                        Error InvalidModule name]
                 else ds0);
          ds2 = (if \<not> validExtension (extensionName (node_text m))
                 then ds1 @ [Diagnostic_create range
                        ''Please specify valid extension name of the imported module.''
                        Error MissingExtension name]
                 else ds1);
          ds3 = (if isRemoteModule (node_text m) \<and> \<not> isHTTPS (node_text m)
                 then ds2 @ [Diagnostic_create range
                        ''For security, we recommend using the HTTPS module.''
                        Warning PreferHTTPS name]
                 else ds2)
      in case resolveModule sv dir (node_text m) of
           Inl e \<Rightarrow> Inl e
         | Inr module \<Rightarrow>
             Inr (if \<not> fileExists sv (filepath module)
                  then ds3 @ [Diagnostic_create range
                         (''Cannot found module `'' @ raw module @ ''`.'')
                         Error
                         (if remote module then RemoteModuleNotExist else LocalModuleNotExist)
                         name]
                  else ds3))"

fun generate_loop ::
  "services \<Rightarrow> string \<Rightarrow> TextDocument \<Rightarrow> string \<Rightarrow> LiteralLikeNode list \<Rightarrow> Diagnostic list
     \<Rightarrow> exn + Diagnostic list" where
  "generate_loop sv name document dir [] ds = Inr ds"
| "generate_loop sv name document dir (m # ms) ds =
     (case generate_body sv name document dir ds m of
        Inl e \<Rightarrow> Inl e
      | Inr ds' \<Rightarrow> generate_loop sv name document dir ms ds')"

text \<open>\<open>Diagnostics.generate\<close>; the first argument after the services is \<open>this.name\<close>.\<close>

definition generate :: "services \<Rightarrow> string \<Rightarrow> TextDocument \<Rightarrow> exn + Diagnostic list" where
  "generate sv name document =
     (if languageId document \<notin> set [''typescript'', ''typescriptreact''] then Inr []
      else (case getWorkspaceConfig sv (uri document) of
        Inl e \<Rightarrow> Inl e
      | Inr config \<Rightarrow>
          (if \<not> enable config then Inr []
           else (case createSourceFile sv (uri document) (getText document) of
             None \<Rightarrow> Inr []
           | Some sourceFile \<Rightarrow>
               generate_loop sv name document (dirname sv (uri document))
                 (delint sourceFile) []))))"

subsection \<open>Example documents\<close>

text \<open>
  Two one-line documents with the trees the TypeScript parser builds for them, and
  services to analyse them with: the document \<open>import x from "./a"\<close> (the literal node
  starts at offset 13, after \<open>from\<close>, with the blank before the opening quote as its
  leading trivia, and ends at 19) and the document
  \<open>const y = require("http://example.com/mod.ts")\<close>. \<open>exampleParser\<close> knows these two
  texts only; \<open>positionAt\<close> is the one of a document of a single line; the resolver of
  \<open>exampleServices\<close> finds a path for every specifier and no file exists, the one of
  \<open>failingServices\<close> rejects.
\<close>

definition importText :: string where
  "importText = ''import x from '' @ [CHR 0x22] @ ''./a'' @ [CHR 0x22]"

definition importTree :: node where
  "importTree =
     OtherNode ''SourceFile''
       [ImportDeclaration [] (Some (OtherNode ''ImportClause'' [Identifier ''x'']))
          (StringLiteral \<lparr>node_pos = 13, node_end = 19, node_text = ''./a''\<rparr>),
        OtherNode ''EndOfFileToken'' []]"

definition requireText :: string where
  "requireText = ''const y = require('' @ [CHR 0x22] @ ''http://example.com/mod.ts'' @ [CHR 0x22] @ '')''"

definition requireTree :: node where
  "requireTree =
     OtherNode ''SourceFile''
       [OtherNode ''VariableStatement''
          [OtherNode ''VariableDeclarationList''
             [OtherNode ''VariableDeclaration''
                [Identifier ''y'',
                 CallExpression (Identifier ''require'') []
                   [StringLiteral
                      \<lparr>node_pos = 18, node_end = 45, node_text = ''http://example.com/mod.ts''\<rparr>]]]],
        OtherNode ''EndOfFileToken'' []]"

definition exampleParser :: "string \<Rightarrow> string \<Rightarrow> node option" where
  "exampleParser u t =
     (if t = importText then Some importTree
      else if t = requireText then Some requireTree
      else None)"

definition exampleServices :: services where
  "exampleServices =
     \<lparr>getWorkspaceConfig = (\<lambda>u. Inr \<lparr>enable = True\<rparr>),
      createSourceFile = exampleParser,
      positionAt = (\<lambda>d offset. \<lparr>line = 0, character = offset\<rparr>),
      dirname = (\<lambda>u. ''/project''),
      resolveModule =
        (\<lambda>dir t. Inr \<lparr>filepath = dir @ ''/'' @ t, raw = t, remote = isRemoteModule t\<rparr>),
      fileExists = (\<lambda>p. False)\<rparr>"

definition failingServices :: services where
  "failingServices =
     exampleServices\<lparr>resolveModule := (\<lambda>dir t. Inl (Rejected ''network error''))\<rparr>"

definition importDocument :: TextDocument where
  "importDocument =
     \<lparr>uri = ''file:///project/main.ts'', languageId = ''typescript'', version = 1,
      getText = importText\<rparr>"

definition requireDocument :: TextDocument where
  "requireDocument =
     \<lparr>uri = ''file:///project/main.ts'', languageId = ''typescript'', version = 1,
      getText = requireText\<rparr>"

text \<open>
  Documents with two imports on one line, \<open>import x from "a";import y from "b"\<close>, for any
  two specifiers, with the tree the parser builds: the first literal node starts at
  offset 13 and ends after its closing quote, the second starts after the second \<open>from\<close>.
  Their services resolve every specifier but the listed ones, for which the resolver
  rejects with an error that names the specifier; no file exists; \<open>positionAt\<close> is the one
  of a document of a single line, which keeps the offset within the text.
\<close>

definition twoImportsText :: "string \<Rightarrow> string \<Rightarrow> string" where
  "twoImportsText a b =
     ''import x from '' @ [CHR 0x22] @ a @ [CHR 0x22] @ '';import y from '' @ [CHR 0x22] @ b @
     [CHR 0x22]"

definition twoImportsTree :: "string \<Rightarrow> string \<Rightarrow> node" where
  "twoImportsTree a b =
     OtherNode ''SourceFile''
       [ImportDeclaration [] (Some (OtherNode ''ImportClause'' [Identifier ''x'']))
          (StringLiteral
             \<lparr>node_pos = 13, node_end = 16 + int (length a), node_text = a\<rparr>),
        ImportDeclaration [] (Some (OtherNode ''ImportClause'' [Identifier ''y'']))
          (StringLiteral
             \<lparr>node_pos = 30 + int (length a), node_end = 33 + int (length a) + int (length b),
              node_text = b\<rparr>),
        OtherNode ''EndOfFileToken'' []]"

definition twoImportsDocument :: "string \<Rightarrow> string \<Rightarrow> TextDocument" where
  "twoImportsDocument a b =
     \<lparr>uri = ''file:///project/main.ts'', languageId = ''typescript'', version = 1,
      getText = twoImportsText a b\<rparr>"

definition twoImportsServices :: "string \<Rightarrow> string \<Rightarrow> string list \<Rightarrow> services" where
  "twoImportsServices a b unresolved =
     \<lparr>getWorkspaceConfig = (\<lambda>u. Inr \<lparr>enable = True\<rparr>),
      createSourceFile =
        (\<lambda>u t. if t = twoImportsText a b then Some (twoImportsTree a b) else None),
      positionAt =
        (\<lambda>d offset. \<lparr>line = 0, character = max 0 (min offset (int (length (getText d))))\<rparr>),
      dirname = (\<lambda>u. ''/project''),
      resolveModule =
        (\<lambda>dir t. if t \<in> set unresolved then Inl (Rejected (''cannot resolve '' @ t))
                 else Inr \<lparr>filepath = dir @ ''/'' @ t, raw = t, remote = isRemoteModule t\<rparr>),
      fileExists = (\<lambda>p. False)\<rparr>"


section \<open>Properties\<close>

subsection \<open>The regular expressions, by the shape of the string\<close>

text \<open>
  The tests of the patterns say what the patterns say: a prefix for \<open>^https?://\<close> and
  \<open>^https://\<close>, a dot and one more character on the same line for \<open>^\..+\<close>, and for
  \<open>\.[a-zA-Z\d]+$\<close> the suffix that starts at the last dot, when it has at least one
  character and only letters and digits.
\<close>

lemma startsWith_iff: "startsWith p s \<longleftrightarrow> (\<exists>rest. s = p @ rest)"
  unfolding startsWith_def
  by (metis append_eq_conv_conj append_take_drop_id)

lemma isRelativeModule_iff:
  "isRelativeModule t \<longleftrightarrow> (\<exists>d rest. t = CHR ''.'' # d # rest \<and> d \<noteq> CHR 0x0A \<and> d \<noteq> CHR 0x0D)"
  by (auto simp: isRelativeModule_def isLineTerminator_def split: list.splits)

lemma isRemoteModule_iff:
  "isRemoteModule t \<longleftrightarrow> (\<exists>rest. t = ''http://'' @ rest) \<or> (\<exists>rest. t = ''https://'' @ rest)"
  by (simp only: isRemoteModule_def startsWith_iff)

lemma isHTTPS_iff: "isHTTPS t \<longleftrightarrow> (\<exists>rest. t = ''https://'' @ rest)"
  by (simp only: isHTTPS_def startsWith_iff)

lemma dot_not_alnum: "\<not> isAlnum CHR ''.''"
  by (simp add: isAlnum_def)

lemma extensionName_suffix:
  "e \<noteq> [] \<Longrightarrow> list_all isAlnum e \<Longrightarrow> extensionName (p @ CHR ''.'' # e) = Some (CHR ''.'' # e)"
  by (induction p) (auto simp: dot_not_alnum)

lemma extensionName_Some:
  "extensionName t = Some x \<Longrightarrow>
     \<exists>p e. t = p @ x \<and> x = CHR ''.'' # e \<and> e \<noteq> [] \<and> list_all isAlnum e"
proof (induction t)
  case Nil
  then show ?case by simp
next
  case (Cons c cs)
  show ?case
  proof (cases "c = CHR ''.'' \<and> cs \<noteq> [] \<and> list_all isAlnum cs")
    case True
    with Cons.prems have "x = c # cs" by simp
    with True show ?thesis by auto
  next
    case False
    with Cons.prems have "extensionName cs = Some x" by auto
    from Cons.IH [OF this] obtain p e where "cs = p @ x" "x = CHR ''.'' # e" "e \<noteq> []" "list_all isAlnum e"
      by blast
    then have "c # cs = (c # p) @ x" by simp
    with \<open>x = CHR ''.'' # e\<close> \<open>e \<noteq> []\<close> \<open>list_all isAlnum e\<close> show ?thesis by blast
  qed
qed

lemma validExtension_iff:
  "validExtension e \<longleftrightarrow> (\<exists>x \<in> set [''.ts'', ''.tsx'', ''.js'', ''.jsx'', ''.json'', ''.wasm'']. e = Some x)"
  by (cases e) (auto simp: validExtension_def validExtensionNameMap_def)

lemma validExtension_suffix:
  "validExtension (extensionName t) \<longleftrightarrow>
     (\<exists>p. \<exists>x \<in> set [''.ts'', ''.tsx'', ''.js'', ''.jsx'', ''.json'', ''.wasm'']. t = p @ x)"
proof
  assume "validExtension (extensionName t)"
  then obtain x where x: "x \<in> set [''.ts'', ''.tsx'', ''.js'', ''.jsx'', ''.json'', ''.wasm'']"
    and "extensionName t = Some x"
    unfolding validExtension_iff by blast
  from extensionName_Some [OF this(2)] obtain p where "t = p @ x" by blast
  with x show "\<exists>p. \<exists>x \<in> set [''.ts'', ''.tsx'', ''.js'', ''.jsx'', ''.json'', ''.wasm'']. t = p @ x"
    by blast
next
  assume "\<exists>p. \<exists>x \<in> set [''.ts'', ''.tsx'', ''.js'', ''.jsx'', ''.json'', ''.wasm'']. t = p @ x"
  then obtain p x where x: "x \<in> set [''.ts'', ''.tsx'', ''.js'', ''.jsx'', ''.json'', ''.wasm'']"
    and t: "t = p @ x" by blast
  from x obtain e where "x = CHR ''.'' # e" "e \<noteq> []" "list_all isAlnum e"
    by (auto simp: isAlnum_def)
  with t have "extensionName t = Some x"
    by (simp add: extensionName_suffix)
  with x show "validExtension (extensionName t)"
    unfolding validExtension_iff by blast
qed

subsection \<open>What one turn of the loop pushes\<close>

text \<open>
  A turn of the loop only appends to the diagnostics it is given. When the resolution
  returns, what it appends is the concatenation of what the four checks push; the codes
  and severities of the appended diagnostics are listed in \<open>generate_body_kinds\<close>.
\<close>

lemma generate_body_acc:
  "generate_body sv name document dir ds m =
     (case generate_body sv name document dir [] m of
        Inl e \<Rightarrow> Inl e
      | Inr new \<Rightarrow> Inr (ds @ new))"
  by (simp add: generate_body_def Let_def split: sum.splits)

lemma generate_body_pushed:
  assumes "generate_body sv name document dir ds m = Inr ds'"
  obtains new where "ds' = ds @ new" and "generate_body sv name document dir [] m = Inr new"
  using assms generate_body_acc [of sv name document dir ds m]
  by (auto split: sum.splits)

lemma generate_body_resolved:
  assumes "resolveModule sv dir (node_text m) = Inr md"
  shows "generate_body sv name document dir ds m = Inr (ds @
      (if \<not> isRelativeModule (node_text m) \<and> \<not> isRemoteModule (node_text m)
       then [Diagnostic_create (moduleRange sv document m)
               ''Deno only supports importting `relative/HTTP` module.'' Error InvalidModule name]
       else []) @
      (if \<not> validExtension (extensionName (node_text m))
       then [Diagnostic_create (moduleRange sv document m)
               ''Please specify valid extension name of the imported module.''
               Error MissingExtension name]
       else []) @
      (if isRemoteModule (node_text m) \<and> \<not> isHTTPS (node_text m)
       then [Diagnostic_create (moduleRange sv document m)
               ''For security, we recommend using the HTTPS module.'' Warning PreferHTTPS name]
       else []) @
      (if \<not> fileExists sv (filepath md)
       then [Diagnostic_create (moduleRange sv document m)
               (''Cannot found module `'' @ raw md @ ''`.'') Error
               (if remote md then RemoteModuleNotExist else LocalModuleNotExist) name]
       else []))"
  using assms by (simp add: generate_body_def Let_def)

lemma generate_body_rejected:
  "resolveModule sv dir (node_text m) = Inl e \<Longrightarrow> generate_body sv name document dir ds m = Inl e"
  by (simp add: generate_body_def Let_def)

lemma generate_body_kinds:
  assumes "generate_body sv name document dir [] m = Inr new"
  obtains md where "resolveModule sv dir (node_text m) = Inr md"
    and "map (\<lambda>d. (code d, severity d)) new =
      (if \<not> isRelativeModule (node_text m) \<and> \<not> isRemoteModule (node_text m)
       then [(1001, Error)] else []) @
      (if \<not> validExtension (extensionName (node_text m)) then [(1002, Error)] else []) @
      (if isRemoteModule (node_text m) \<and> \<not> isHTTPS (node_text m)
       then [(1003, Warning)] else []) @
      (if \<not> fileExists sv (filepath md)
       then [(if remote md then 1005 else 1004, Error)] else [])"
proof (cases "resolveModule sv dir (node_text m)")
  case (Inl e)
  with assms show ?thesis
    by (simp add: generate_body_rejected)
next
  case (Inr md)
  from assms have "map (\<lambda>d. (code d, severity d)) new =
      (if \<not> isRelativeModule (node_text m) \<and> \<not> isRemoteModule (node_text m)
       then [(1001, Error)] else []) @
      (if \<not> validExtension (extensionName (node_text m)) then [(1002, Error)] else []) @
      (if isRemoteModule (node_text m) \<and> \<not> isHTTPS (node_text m)
       then [(1003, Warning)] else []) @
      (if \<not> fileExists sv (filepath md)
       then [(if remote md then 1005 else 1004, Error)] else [])"
    unfolding generate_body_resolved [OF Inr] by (auto simp: Diagnostic_create_def)
  with Inr show ?thesis
    by (rule that)
qed

lemma generate_body_ranges:
  assumes "generate_body sv name document dir [] m = Inr new"
  shows "\<forall>d \<in> set new. diag_range d = moduleRange sv document m \<and> source d = name"
proof (cases "resolveModule sv dir (node_text m)")
  case (Inl e)
  with assms show ?thesis
    by (simp add: generate_body_rejected)
next
  case (Inr md)
  from assms show ?thesis
    unfolding generate_body_resolved [OF Inr] by (auto simp: Diagnostic_create_def)
qed

lemma count_code:
  "length (filter (\<lambda>d. code d = k) ds) =
   length (filter (\<lambda>p. fst p = k) (map (\<lambda>d. (code d, severity d)) ds))"
  by (induction ds) auto

lemma severity_of_code:
  "(\<forall>d \<in> set ds. code d = k \<longrightarrow> severity d = s) \<longleftrightarrow>
   (\<forall>p \<in> set (map (\<lambda>d. (code d, severity d)) ds). fst p = k \<longrightarrow> snd p = s)"
  by auto

lemma exists_code:
  "(\<exists>d \<in> set ds. code d = k) \<longleftrightarrow>
   (\<exists>p \<in> set (map (\<lambda>d. (code d, severity d)) ds). fst p = k)"
  by auto

lemma generate_body_counts:
  assumes "generate_body sv name document dir [] m = Inr new"
  shows "length (filter (\<lambda>d. code d = DiagnosticCode_value InvalidModule) new) =
      (if isRelativeModule (node_text m) \<or> isRemoteModule (node_text m) then 0 else 1)"
    and "length (filter (\<lambda>d. code d = DiagnosticCode_value MissingExtension) new) =
      (if validExtension (extensionName (node_text m)) then 0 else 1)"
    and "length (filter (\<lambda>d. code d = DiagnosticCode_value PreferHTTPS) new) =
      (if isRemoteModule (node_text m) \<and> \<not> isHTTPS (node_text m) then 1 else 0)"
    and "\<forall>d \<in> set new.
      (code d = DiagnosticCode_value InvalidModule \<longrightarrow> severity d = Error) \<and>
      (code d = DiagnosticCode_value MissingExtension \<longrightarrow> severity d = Error) \<and>
      (code d = DiagnosticCode_value PreferHTTPS \<longrightarrow> severity d = Warning)"
proof -
  from assms obtain md where "resolveModule sv dir (node_text m) = Inr md" and
    kinds: "map (\<lambda>d. (code d, severity d)) new =
      (if \<not> isRelativeModule (node_text m) \<and> \<not> isRemoteModule (node_text m)
       then [(1001, Error)] else []) @
      (if \<not> validExtension (extensionName (node_text m)) then [(1002, Error)] else []) @
      (if isRemoteModule (node_text m) \<and> \<not> isHTTPS (node_text m)
       then [(1003, Warning)] else []) @
      (if \<not> fileExists sv (filepath md)
       then [(if remote md then 1005 else 1004, Error)] else [])"
    by (rule generate_body_kinds)
  show "length (filter (\<lambda>d. code d = DiagnosticCode_value InvalidModule) new) =
      (if isRelativeModule (node_text m) \<or> isRemoteModule (node_text m) then 0 else 1)"
    unfolding count_code [of _ new] kinds by simp
  show "length (filter (\<lambda>d. code d = DiagnosticCode_value MissingExtension) new) =
      (if validExtension (extensionName (node_text m)) then 0 else 1)"
    unfolding count_code [of _ new] kinds by simp
  show "length (filter (\<lambda>d. code d = DiagnosticCode_value PreferHTTPS) new) =
      (if isRemoteModule (node_text m) \<and> \<not> isHTTPS (node_text m) then 1 else 0)"
    unfolding count_code [of _ new] kinds by simp
  have "\<forall>d \<in> set new. code d = DiagnosticCode_value InvalidModule \<longrightarrow> severity d = Error"
    unfolding severity_of_code [of new] kinds by auto
  moreover
  have "\<forall>d \<in> set new. code d = DiagnosticCode_value MissingExtension \<longrightarrow> severity d = Error"
    unfolding severity_of_code [of new] kinds by auto
  moreover
  have "\<forall>d \<in> set new. code d = DiagnosticCode_value PreferHTTPS \<longrightarrow> severity d = Warning"
    unfolding severity_of_code [of new] kinds by auto
  ultimately show "\<forall>d \<in> set new.
      (code d = DiagnosticCode_value InvalidModule \<longrightarrow> severity d = Error) \<and>
      (code d = DiagnosticCode_value MissingExtension \<longrightarrow> severity d = Error) \<and>
      (code d = DiagnosticCode_value PreferHTTPS \<longrightarrow> severity d = Warning)"
    by simp
qed

subsection \<open>The loop and the walk\<close>

text \<open>
  A loop that returns has appended, reference by reference, what the turns append; a loop
  over references of which one does not resolve raises the error of the first such
  reference. The walk returns its accumulator unchanged on a tree without module
  constructs.
\<close>

lemma generate_loop_returns:
  assumes "generate_loop sv name document dir ms ds = Inr ds'"
  shows "\<exists>f. ds' = ds @ concat (map f ms) \<and>
    (\<forall>m \<in> set ms. generate_body sv name document dir [] m = Inr (f m))"
  using assms
proof (induction ms arbitrary: ds)
  case Nil
  then show ?case by simp
next
  case (Cons x xs)
  from Cons.prems obtain ds1 where x: "generate_body sv name document dir ds x = Inr ds1"
    and rest: "generate_loop sv name document dir xs ds1 = Inr ds'"
    by (cases "generate_body sv name document dir ds x") simp_all
  from x obtain new where ds1: "ds1 = ds @ new"
    and new: "generate_body sv name document dir [] x = Inr new"
    by (rule generate_body_pushed)
  from Cons.IH [OF rest] obtain f where f: "ds' = ds1 @ concat (map f xs)"
    and each: "\<forall>m \<in> set xs. generate_body sv name document dir [] m = Inr (f m)"
    by blast
  have same: "f m = new" if "m \<in> set xs" "m = x" for m
    using each new that by auto
  have "concat (map (f(x := new)) xs) = concat (map f xs)"
    using same by (intro arg_cong [where f = concat] map_cong) auto
  with f ds1 have "ds' = ds @ concat (map (f(x := new)) (x # xs))"
    by simp
  moreover have "\<forall>m \<in> set (x # xs). generate_body sv name document dir [] m = Inr ((f(x := new)) m)"
    using each new by auto
  ultimately show ?case
    by (intro exI [of _ "f(x := new)"] conjI) assumption+
qed

lemma generate_loop_first_rejected:
  assumes "\<forall>x \<in> set before. \<exists>md. resolveModule sv dir (node_text x) = Inr md"
    and "resolveModule sv dir (node_text m) = Inl e"
  shows "generate_loop sv name document dir (before @ m # after) ds = Inl e"
  using assms(1)
proof (induction before arbitrary: ds)
  case Nil
  from assms(2) show ?case
    by (simp add: generate_body_rejected)
next
  case (Cons x xs)
  from Cons.prems obtain md where "resolveModule sv dir (node_text x) = Inr md"
    by auto
  then obtain ds1 where "generate_body sv name document dir ds x = Inr ds1"
    by (simp add: generate_body_resolved)
  moreover from Cons.prems have "generate_loop sv name document dir (xs @ m # after) ds1 = Inl e"
    by (intro Cons.IH) simp
  ultimately show ?case
    by simp
qed

lemma first_rejected:
  assumes "m \<in> set ms" and "resolveModule sv dir (node_text m) = Inl e"
  shows "\<exists>before first after e'. ms = before @ first # after \<and>
    (\<forall>x \<in> set before. \<exists>md. resolveModule sv dir (node_text x) = Inr md) \<and>
    resolveModule sv dir (node_text first) = Inl e'"
proof -
  from assms have "\<exists>x \<in> set ms. \<exists>e'. resolveModule sv dir (node_text x) = Inl e'"
    by blast
  then obtain before first after where ms: "ms = before @ first # after"
    and first: "\<exists>e'. resolveModule sv dir (node_text first) = Inl e'"
    and before: "\<forall>x \<in> set before. \<not> (\<exists>e'. resolveModule sv dir (node_text x) = Inl e')"
    by (rule split_list_first_propE)
  have "\<forall>x \<in> set before. \<exists>md. resolveModule sv dir (node_text x) = Inr md"
  proof
    fix x
    assume "x \<in> set before"
    with before show "\<exists>md. resolveModule sv dir (node_text x) = Inr md"
      by (cases "resolveModule sv dir (node_text x)") auto
  qed
  with ms first show ?thesis
    by blast
qed

lemma generate_analysed:
  assumes "languageId document \<in> set [''typescript'', ''typescriptreact'']"
    and "getWorkspaceConfig sv (uri document) = Inr config"
    and "enable config"
    and "createSourceFile sv (uri document) (getText document) = Some sourceFile"
  shows "generate sv name document =
    generate_loop sv name document (dirname sv (uri document)) (delint sourceFile) []"
  using assms by (simp add: generate_def)

lemma generate_returns:
  assumes "languageId document \<in> set [''typescript'', ''typescriptreact'']"
    and "getWorkspaceConfig sv (uri document) = Inr config"
    and "enable config"
    and "createSourceFile sv (uri document) (getText document) = Some sourceFile"
    and "generate sv name document = Inr ds"
  obtains f where "ds = concat (map f (delint sourceFile))"
    and "\<forall>m \<in> set (delint sourceFile).
           generate_body sv name document (dirname sv (uri document)) [] m = Inr (f m)"
proof -
  from assms have "generate_loop sv name document (dirname sv (uri document))
      (delint sourceFile) [] = Inr ds"
    by (simp add: generate_def)
  from generate_loop_returns [OF this] show ?thesis
    using that by auto
qed

lemma quoted_slice:
  assumes "take (length t + 2) (drop k xs) = q # t @ [q]"
  shows "xs ! k = q" and "take (length t) (drop (Suc k) xs) = t" and "xs ! (k + length t + 1) = q"
proof -
  have len: "k + length t + 2 \<le> length xs"
  proof (rule ccontr)
    assume "\<not> k + length t + 2 \<le> length xs"
    then have "length (take (length t + 2) (drop k xs)) < length t + 2"
      by simp
    with assms show False
      by simp
  qed
  have nth: "(q # t @ [q]) ! i = xs ! (k + i)" if "i < length t + 2" for i
  proof -
    have "(q # t @ [q]) ! i = take (length t + 2) (drop k xs) ! i"
      by (simp only: assms)
    also have "\<dots> = xs ! (k + i)"
      using that len by simp
    finally show ?thesis .
  qed
  from nth [of 0] show "xs ! k = q"
    by simp
  from nth [of "length t + 1"] show "xs ! (k + length t + 1) = q"
    by (simp add: nth_append)
  have "take (length t) (drop (Suc k) xs) = take (length t) (drop 1 (take (length t + 2) (drop k xs)))"
    by (simp add: drop_take)
  also have "\<dots> = t"
    by (simp only: assms) simp
  finally show "take (length t) (drop (Suc k) xs) = t" .
qed

lemma noModuleForm_moduleNode: "noModuleForm n \<Longrightarrow> moduleNode n = None"
  by (cases n) (auto split: node.splits)

lemma noModuleForm_children: "noModuleForm n \<Longrightarrow> c \<in> set (forEachChild n) \<Longrightarrow> noModuleForm c"
  by (cases n) auto

lemma fold_unchanged: "(\<And>c a. c \<in> set cs \<Longrightarrow> f c a = a) \<Longrightarrow> fold f cs acc = acc"
  by (induction cs arbitrary: acc) auto

lemma delintNode_noModuleForm: "noModuleForm n \<Longrightarrow> delintNode n acc = acc"
proof (induction n acc rule: delintNode.induct)
  case (1 n moduleNodes)
  have "delintNode n moduleNodes = fold delintNode (forEachChild n) moduleNodes"
    by (subst delintNode.simps) (simp add: noModuleForm_moduleNode [OF "1.prems"])
  also have "\<dots> = moduleNodes"
    using "1.IH" noModuleForm_children [OF "1.prems"] by (intro fold_unchanged) blast
  finally show ?case .
qed

subsection \<open>Evaluating the examples\<close>

lemmas example_defs =
  exampleServices_def failingServices_def importDocument_def requireDocument_def
  exampleParser_def importText_def requireText_def importTree_def requireTree_def

lemmas check_defs =
  generate_body_def Let_def moduleRange_def numberOfSpaces_def Diagnostic_create_def
  isRelativeModule_def isRemoteModule_def isHTTPS_def startsWith_def isLineTerminator_def
  validExtension_def validExtensionNameMap_def isAlnum_def

lemmas two_imports_defs =
  twoImportsServices_def twoImportsDocument_def twoImportsText_def twoImportsTree_def



section \<open>The claims\<close>

text \<open>
  The theorems about an analysis speak of a document that \<open>generate\<close> analyses (a
  TypeScript document of an enabled workspace that the parser accepts) and of an analysis
  that returns: its result is then \<open>concat (map f (delint sourceFile))\<close>, the diagnostics
  \<open>f m\<close> emitted for each extracted reference \<open>m\<close>, in the order of extraction. The
  theorems about one turn of the loop speak of \<open>generate_body\<close>, which is given the
  diagnostics \<open>ds\<close> collected so far and returns them with those of the reference
  appended.
\<close>

text \<open>
  C1, as stated: the range of a reference's diagnostics covers the plain text of the
  literal without the quotes. The code does not do that. In \<open>import x from "./a"\<close> the
  text \<open>./a\<close> is at the columns 15 to 17 and the quotes are at 14 and 18; the range of both
  diagnostics runs from column 14, the opening quote, to column 19, past the closing
  quote.
\<close>

theorem range_excludes_quotes_counterexample:
  "generate exampleServices ''deno'' importDocument =
     Inr [Diagnostic_create
            \<lparr>range_start = \<lparr>line = 0, character = 14\<rparr>, range_end = \<lparr>line = 0, character = 19\<rparr>\<rparr>
            ''Please specify valid extension name of the imported module.''
            Error MissingExtension ''deno'',
           Diagnostic_create
            \<lparr>range_start = \<lparr>line = 0, character = 14\<rparr>, range_end = \<lparr>line = 0, character = 19\<rparr>\<rparr>
            ''Cannot found module `./a`.''
            Error LocalModuleNotExist ''deno''] \<and>
   getText importDocument ! 14 = CHR 0x22 \<and>
   take 3 (drop 15 (getText importDocument)) = ''./a'' \<and>
   getText importDocument ! 18 = CHR 0x22"
  by (simp add: generate_def delint_def check_defs example_defs)

text \<open>
  C1, amended: in the result of an analysis that returns, every diagnostic of a reference
  has the range from the position of the offset \<open>pos + |end - pos - (length text + 2)|\<close> to
  the position of the offset \<open>end\<close>. When the node starts at offset 0 or later, its span
  is at least as long as the text with two quotes, and the \<open>length text + 2\<close> characters
  of the document that end at the node's end are a quote, the text and the same quote
  again (a terminated literal, written without escape sequences), then the offset the
  range starts at holds the opening quote, the text follows it, and the last offset
  before the one the range ends at holds the closing quote: the range is the literal with
  both its quotes. Nothing is said of a literal written with escape sequences or left
  unterminated.
\<close>

theorem range_is_quoted_literal:
  assumes "languageId document \<in> set [''typescript'', ''typescriptreact'']"
    and "getWorkspaceConfig sv (uri document) = Inr config"
    and "enable config"
    and "createSourceFile sv (uri document) (getText document) = Some sourceFile"
    and "generate sv name document = Inr ds"
  shows "\<exists>f. ds = concat (map f (delint sourceFile)) \<and>
    (\<forall>m \<in> set (delint sourceFile).
       (\<forall>d \<in> set (f m).
          diag_range d =
            \<lparr>range_start =
               positionAt sv document
                 (node_pos m +
                  \<bar>node_end m - node_pos m - (int (length (node_text m)) + 2)\<bar>),
             range_end = positionAt sv document (node_end m)\<rparr>) \<and>
       (\<forall>q. 0 \<le> node_pos m \<and>
            node_pos m \<le> node_end m - (int (length (node_text m)) + 2) \<and>
            take (length (node_text m) + 2)
              (drop (nat (node_end m - (int (length (node_text m)) + 2))) (getText document)) =
              q # node_text m @ [q] \<longrightarrow>
          getText document !
            nat (node_pos m + \<bar>node_end m - node_pos m - (int (length (node_text m)) + 2)\<bar>) =
            q \<and>
          take (length (node_text m))
            (drop
              (nat (node_pos m +
                    \<bar>node_end m - node_pos m - (int (length (node_text m)) + 2)\<bar> + 1))
              (getText document)) = node_text m \<and>
          getText document ! nat (node_end m - 1) = q))"
    (is "\<exists>f. _ \<and> (\<forall>m \<in> _. ?range f m \<and> ?quoted m)")
proof -
  from assms obtain f where ds: "ds = concat (map f (delint sourceFile))"
    and each: "\<forall>m \<in> set (delint sourceFile).
      generate_body sv name document (dirname sv (uri document)) [] m = Inr (f m)"
    by (rule generate_returns)
  have "\<forall>m \<in> set (delint sourceFile). ?range f m \<and> ?quoted m"
  proof (intro ballI)
    fix m
    assume "m \<in> set (delint sourceFile)"
    with each
    have new: "generate_body sv name document (dirname sv (uri document)) [] m = Inr (f m)"
      by simp
    from generate_body_ranges [OF new] have "?range f m"
      by (simp add: moduleRange_def numberOfSpaces_def)
    moreover have "?quoted m"
    proof (intro allI impI, elim conjE)
      fix q
      let ?n = "length (node_text m)"
      let ?k = "nat (node_end m - (int ?n + 2))"
      assume pos: "0 \<le> node_pos m"
        and span: "node_pos m \<le> node_end m - (int ?n + 2)"
        and slice: "take (?n + 2) (drop ?k (getText document)) = q # node_text m @ [q]"
      from span have start: "node_pos m + \<bar>node_end m - node_pos m - (int ?n + 2)\<bar> =
          node_end m - (int ?n + 2)"
        by simp
      from pos span have k1: "nat (node_end m - (int ?n + 2) + 1) = Suc ?k"
        and k2: "nat (node_end m - 1) = ?k + ?n + 1"
        by simp_all
      from quoted_slice [OF slice]
      show "getText document !
            nat (node_pos m + \<bar>node_end m - node_pos m - (int ?n + 2)\<bar>) = q \<and>
          take ?n
            (drop (nat (node_pos m + \<bar>node_end m - node_pos m - (int ?n + 2)\<bar> + 1))
              (getText document)) = node_text m \<and>
          getText document ! nat (node_end m - 1) = q"
        unfolding start k1 k2 by (intro conjI) assumption+
    qed
    ultimately show "?range f m \<and> ?quoted m"
      by (intro conjI) assumption+
  qed
  with ds show ?thesis
    by (intro exI [of _ f] conjI) assumption+
qed

theorem range_is_quoted_literal_witness:
  "generate (twoImportsServices ''./a.ts'' ''./b.ts'' []) ''deno''
     (twoImportsDocument ''./a.ts'' ''./b.ts'') =
   Inr [Diagnostic_create
         \<lparr>range_start = \<lparr>line = 0, character = 14\<rparr>, range_end = \<lparr>line = 0, character = 22\<rparr>\<rparr>
         ''Cannot found module `./a.ts`.''
         Error LocalModuleNotExist ''deno'',
        Diagnostic_create
         \<lparr>range_start = \<lparr>line = 0, character = 37\<rparr>, range_end = \<lparr>line = 0, character = 45\<rparr>\<rparr>
         ''Cannot found module `./b.ts`.''
         Error LocalModuleNotExist ''deno''] \<and>
   delint (twoImportsTree ''./a.ts'' ''./b.ts'') =
     [\<lparr>node_pos = 13, node_end = 22, node_text = ''./a.ts''\<rparr>,
      \<lparr>node_pos = 36, node_end = 45, node_text = ''./b.ts''\<rparr>] \<and>
   take (length ''./b.ts'' + 2)
     (drop (nat (45 - (int (length ''./b.ts'') + 2))) (getText (twoImportsDocument ''./a.ts'' ''./b.ts''))) =
     CHR 0x22 # ''./b.ts'' @ [CHR 0x22] \<and>
   getText (twoImportsDocument ''./a.ts'' ''./b.ts'') ! 37 = CHR 0x22 \<and>
   take 6 (drop 38 (getText (twoImportsDocument ''./a.ts'' ''./b.ts''))) = ''./b.ts'' \<and>
   getText (twoImportsDocument ''./a.ts'' ''./b.ts'') ! 44 = CHR 0x22"
  (is "?run \<and> _")
proof -
  have l: "languageId (twoImportsDocument ''./a.ts'' ''./b.ts'') \<in> set [''typescript'', ''typescriptreact'']"
    by (simp add: twoImportsDocument_def)
  have c: "getWorkspaceConfig (twoImportsServices ''./a.ts'' ''./b.ts'' [])
      (uri (twoImportsDocument ''./a.ts'' ''./b.ts'')) = Inr \<lparr>enable = True\<rparr>"
    by (simp add: twoImportsServices_def)
  have e: "enable \<lparr>enable = True\<rparr>"
    by simp
  have p: "createSourceFile (twoImportsServices ''./a.ts'' ''./b.ts'' [])
      (uri (twoImportsDocument ''./a.ts'' ''./b.ts'')) (getText (twoImportsDocument ''./a.ts'' ''./b.ts'')) =
      Some (twoImportsTree ''./a.ts'' ''./b.ts'')"
    by (simp add: twoImportsServices_def twoImportsDocument_def)
  have run: ?run
    by (simp add: generate_def delint_def check_defs two_imports_defs)
  from range_is_quoted_literal [OF l c e p run] run show ?thesis
    by (simp add: delint_def two_imports_defs)
qed

text \<open>
  C2, as stated: when the resolution of a reference raises, its existence diagnostic is
  left out and the diagnostics of the other checks are still returned. The code has no
  handler around \<open>await deno.resolveModule\<close>: for \<open>import x from "./a"\<close> and a resolver
  that rejects, \<open>generate\<close> rejects with the resolver's error and returns no diagnostic,
  although the extension check applies to \<open>./a\<close>.
\<close>

theorem resolve_error_counterexample:
  "generate failingServices ''deno'' importDocument = Inl (Rejected ''network error'') \<and>
   \<not> validExtension (extensionName ''./a'')"
  by (simp add: generate_def delint_def check_defs example_defs)

text \<open>
  C2, amended: when the resolution of a reference of an analysed document raises, the
  turn of the loop for that reference raises the same error, and \<open>generate\<close> raises: it
  returns no diagnostics at all, neither an existence diagnostic nor those of the other
  checks. The error \<open>generate\<close> raises is that of the first reference, in the order of
  extraction, whose resolution raises; it is the error of the reference itself when every
  reference before it resolves.
\<close>

theorem resolve_error_rejects_analysis:
  assumes "languageId document \<in> set [''typescript'', ''typescriptreact'']"
    and "getWorkspaceConfig sv (uri document) = Inr config"
    and "enable config"
    and "createSourceFile sv (uri document) (getText document) = Some sourceFile"
    and "m \<in> set (delint sourceFile)"
    and "resolveModule sv (dirname sv (uri document)) (node_text m) = Inl e"
  shows "generate_body sv name document (dirname sv (uri document)) ds m = Inl e \<and>
    (\<exists>before first after e'. delint sourceFile = before @ first # after \<and>
       (\<forall>x \<in> set before.
          \<exists>md. resolveModule sv (dirname sv (uri document)) (node_text x) = Inr md) \<and>
       resolveModule sv (dirname sv (uri document)) (node_text first) = Inl e' \<and>
       generate sv name document = Inl e') \<and>
    ((\<exists>before after. delint sourceFile = before @ m # after \<and>
        (\<forall>x \<in> set before.
           \<exists>md. resolveModule sv (dirname sv (uri document)) (node_text x) = Inr md)) \<longrightarrow>
     generate sv name document = Inl e)"
    (is "?turn \<and> ?first \<and> ?self")
proof -
  have loop: "generate sv name document =
    generate_loop sv name document (dirname sv (uri document)) (delint sourceFile) []"
    using assms(1-4) by (rule generate_analysed)
  from assms(6) have "?turn"
    by (rule generate_body_rejected)
  moreover have "?first"
  proof -
    from first_rejected [OF assms(5) assms(6)]
    obtain before first after e' where ms: "delint sourceFile = before @ first # after"
      and before: "\<forall>x \<in> set before.
          \<exists>md. resolveModule sv (dirname sv (uri document)) (node_text x) = Inr md"
      and first: "resolveModule sv (dirname sv (uri document)) (node_text first) = Inl e'"
      by blast
    from generate_loop_first_rejected [OF before first]
    have "generate sv name document = Inl e'"
      unfolding loop ms .
    with ms before first show ?thesis
      by blast
  qed
  moreover have "?self"
  proof (intro impI, elim exE conjE)
    fix before after
    assume ms: "delint sourceFile = before @ m # after"
      and before: "\<forall>x \<in> set before.
          \<exists>md. resolveModule sv (dirname sv (uri document)) (node_text x) = Inr md"
    from generate_loop_first_rejected [OF before assms(6)]
    show "generate sv name document = Inl e"
      unfolding loop ms .
  qed
  ultimately show ?thesis
    by (intro conjI) assumption+
qed

theorem resolve_error_rejects_analysis_witness:
  "delint (twoImportsTree ''./a'' ''./b.ts'') =
     [\<lparr>node_pos = 13, node_end = 19, node_text = ''./a''\<rparr>,
      \<lparr>node_pos = 33, node_end = 42, node_text = ''./b.ts''\<rparr>] \<and>
   resolveModule (twoImportsServices ''./a'' ''./b.ts'' [''./a'', ''./b.ts'']) ''/project'' ''./a'' =
     Inl (Rejected ''cannot resolve ./a'') \<and>
   resolveModule (twoImportsServices ''./a'' ''./b.ts'' [''./a'', ''./b.ts'']) ''/project'' ''./b.ts'' =
     Inl (Rejected ''cannot resolve ./b.ts'') \<and>
   generate_body (twoImportsServices ''./a'' ''./b.ts'' [''./a'', ''./b.ts'']) ''deno''
     (twoImportsDocument ''./a'' ''./b.ts'') ''/project'' []
     \<lparr>node_pos = 33, node_end = 42, node_text = ''./b.ts''\<rparr> =
     Inl (Rejected ''cannot resolve ./b.ts'') \<and>
   generate (twoImportsServices ''./a'' ''./b.ts'' [''./a'', ''./b.ts'']) ''deno''
     (twoImportsDocument ''./a'' ''./b.ts'') =
     Inl (Rejected ''cannot resolve ./a'')"
proof -
  have l: "languageId (twoImportsDocument ''./a'' ''./b.ts'') \<in> set [''typescript'', ''typescriptreact'']"
    by (simp add: twoImportsDocument_def)
  have c: "getWorkspaceConfig (twoImportsServices ''./a'' ''./b.ts'' [''./a'', ''./b.ts''])
      (uri (twoImportsDocument ''./a'' ''./b.ts'')) = Inr \<lparr>enable = True\<rparr>"
    by (simp add: twoImportsServices_def)
  have e: "enable \<lparr>enable = True\<rparr>"
    by simp
  have p: "createSourceFile (twoImportsServices ''./a'' ''./b.ts'' [''./a'', ''./b.ts''])
      (uri (twoImportsDocument ''./a'' ''./b.ts'')) (getText (twoImportsDocument ''./a'' ''./b.ts'')) =
      Some (twoImportsTree ''./a'' ''./b.ts'')"
    by (simp add: twoImportsServices_def twoImportsDocument_def)
  have m: "\<lparr>node_pos = 33, node_end = 42, node_text = ''./b.ts''\<rparr>
      \<in> set (delint (twoImportsTree ''./a'' ''./b.ts''))"
    by (simp add: delint_def twoImportsTree_def)
  have r: "resolveModule (twoImportsServices ''./a'' ''./b.ts'' [''./a'', ''./b.ts''])
      (dirname (twoImportsServices ''./a'' ''./b.ts'' [''./a'', ''./b.ts'']) (uri (twoImportsDocument ''./a'' ''./b.ts'')))
      (node_text \<lparr>node_pos = 33, node_end = 42, node_text = ''./b.ts''\<rparr>) =
      Inl (Rejected ''cannot resolve ./b.ts'')"
    by (simp add: twoImportsServices_def)
  from resolve_error_rejects_analysis [OF l c e p m r, of "''deno''" "[]"]
  show ?thesis
    by (simp add: generate_def delint_def check_defs two_imports_defs)
qed

text \<open>
  C3, as stated: for every extracted reference an \<open>InvalidModule\<close> diagnostic is emitted
  exactly when the specifier matches neither \<open>^\..+\<close> nor \<open>^https?://\<close>. The code emits
  nothing when a resolution raises. In \<open>import x from "lodash";import y from "./b.ts"\<close>
  with a resolver that rejects \<open>./b.ts\<close> only, \<open>lodash\<close> is extracted, resolves and matches
  neither pattern, and \<open>generate\<close> raises without returning any diagnostic.
\<close>

theorem invalid_module_counterexample:
  "generate (twoImportsServices ''lodash'' ''./b.ts'' [''./b.ts'']) ''deno''
     (twoImportsDocument ''lodash'' ''./b.ts'') =
   Inl (Rejected ''cannot resolve ./b.ts'') \<and>
   delint (twoImportsTree ''lodash'' ''./b.ts'') =
     [\<lparr>node_pos = 13, node_end = 22, node_text = ''lodash''\<rparr>,
      \<lparr>node_pos = 36, node_end = 45, node_text = ''./b.ts''\<rparr>] \<and>
   resolveModule (twoImportsServices ''lodash'' ''./b.ts'' [''./b.ts'']) ''/project'' ''lodash'' =
     Inr \<lparr>filepath = ''/project/lodash'', raw = ''lodash'', remote = False\<rparr> \<and>
   \<not> isRelativeModule ''lodash'' \<and> \<not> isRemoteModule ''lodash''"
  by (simp add: generate_def delint_def check_defs two_imports_defs)

text \<open>
  C3, amended: when the analysis of a document returns, its result is the diagnostics of
  the extracted references in order, and among those of a reference there is exactly one
  \<open>InvalidModule\<close> diagnostic when its specifier is neither a dot followed by a character
  other than a line break (\<open>^\..+\<close>) nor a string that starts with \<open>http://\<close> or
  \<open>https://\<close> (\<open>^https?://\<close>), and none otherwise; that diagnostic has severity \<open>Error\<close> and
  the range of the reference.
\<close>

theorem invalid_module_iff_neither_pattern:
  assumes "languageId document \<in> set [''typescript'', ''typescriptreact'']"
    and "getWorkspaceConfig sv (uri document) = Inr config"
    and "enable config"
    and "createSourceFile sv (uri document) (getText document) = Some sourceFile"
    and "generate sv name document = Inr ds"
  shows "\<exists>f. ds = concat (map f (delint sourceFile)) \<and>
    (\<forall>m \<in> set (delint sourceFile).
       length (filter (\<lambda>d. code d = DiagnosticCode_value InvalidModule) (f m)) =
         (if (\<exists>c rest. node_text m = CHR ''.'' # c # rest \<and> c \<noteq> CHR 0x0A \<and> c \<noteq> CHR 0x0D) \<or>
             (\<exists>rest. node_text m = ''http://'' @ rest) \<or>
             (\<exists>rest. node_text m = ''https://'' @ rest)
          then 0 else 1) \<and>
       (\<forall>d \<in> set (f m). code d = DiagnosticCode_value InvalidModule \<longrightarrow>
          severity d = Error \<and> diag_range d = moduleRange sv document m))"
    (is "\<exists>f. _ \<and> (\<forall>m \<in> _. ?count f m \<and> ?sev f m)")
proof -
  from assms obtain f where ds: "ds = concat (map f (delint sourceFile))"
    and each: "\<forall>m \<in> set (delint sourceFile).
      generate_body sv name document (dirname sv (uri document)) [] m = Inr (f m)"
    by (rule generate_returns)
  have "\<forall>m \<in> set (delint sourceFile). ?count f m \<and> ?sev f m"
  proof (intro ballI)
    fix m
    assume "m \<in> set (delint sourceFile)"
    with each
    have new: "generate_body sv name document (dirname sv (uri document)) [] m = Inr (f m)"
      by simp
    from generate_body_counts(1) [OF new] have "?count f m"
      by (simp only: isRelativeModule_iff isRemoteModule_iff)
    moreover from generate_body_counts(4) [OF new] generate_body_ranges [OF new]
    have "?sev f m"
      by simp
    ultimately show "?count f m \<and> ?sev f m"
      by (intro conjI) assumption+
  qed
  with ds show ?thesis
    by (intro exI [of _ f] conjI) assumption+
qed

theorem invalid_module_iff_neither_pattern_witness:
  "generate (twoImportsServices ''lodash'' ''./b.ts'' []) ''deno''
     (twoImportsDocument ''lodash'' ''./b.ts'') =
   Inr [Diagnostic_create
         \<lparr>range_start = \<lparr>line = 0, character = 14\<rparr>, range_end = \<lparr>line = 0, character = 22\<rparr>\<rparr>
         ''Deno only supports importting `relative/HTTP` module.''
         Error InvalidModule ''deno'',
        Diagnostic_create
         \<lparr>range_start = \<lparr>line = 0, character = 14\<rparr>, range_end = \<lparr>line = 0, character = 22\<rparr>\<rparr>
         ''Please specify valid extension name of the imported module.''
         Error MissingExtension ''deno'',
        Diagnostic_create
         \<lparr>range_start = \<lparr>line = 0, character = 14\<rparr>, range_end = \<lparr>line = 0, character = 22\<rparr>\<rparr>
         ''Cannot found module `lodash`.''
         Error LocalModuleNotExist ''deno'',
        Diagnostic_create
         \<lparr>range_start = \<lparr>line = 0, character = 37\<rparr>, range_end = \<lparr>line = 0, character = 45\<rparr>\<rparr>
         ''Cannot found module `./b.ts`.''
         Error LocalModuleNotExist ''deno''] \<and>
   delint (twoImportsTree ''lodash'' ''./b.ts'') =
     [\<lparr>node_pos = 13, node_end = 22, node_text = ''lodash''\<rparr>,
      \<lparr>node_pos = 36, node_end = 45, node_text = ''./b.ts''\<rparr>] \<and>
   \<not> isRelativeModule ''lodash'' \<and> \<not> isRemoteModule ''lodash'' \<and> isRelativeModule ''./b.ts''"
  (is "?run \<and> _")
proof -
  have l: "languageId (twoImportsDocument ''lodash'' ''./b.ts'') \<in> set [''typescript'', ''typescriptreact'']"
    by (simp add: twoImportsDocument_def)
  have c: "getWorkspaceConfig (twoImportsServices ''lodash'' ''./b.ts'' [])
      (uri (twoImportsDocument ''lodash'' ''./b.ts'')) = Inr \<lparr>enable = True\<rparr>"
    by (simp add: twoImportsServices_def)
  have e: "enable \<lparr>enable = True\<rparr>"
    by simp
  have p: "createSourceFile (twoImportsServices ''lodash'' ''./b.ts'' [])
      (uri (twoImportsDocument ''lodash'' ''./b.ts'')) (getText (twoImportsDocument ''lodash'' ''./b.ts'')) =
      Some (twoImportsTree ''lodash'' ''./b.ts'')"
    by (simp add: twoImportsServices_def twoImportsDocument_def)
  have run: ?run
    by (simp add: generate_def delint_def check_defs two_imports_defs)
  from invalid_module_iff_neither_pattern [OF l c e p run] run show ?thesis
    by (simp add: delint_def check_defs two_imports_defs)
qed

text \<open>
  C4, as stated: for every extracted reference a \<open>MissingExtension\<close> diagnostic is emitted
  exactly when its trailing extension is not an accepted one. The code emits nothing
  when a resolution raises. In \<open>import x from "./a";import y from "./b.ts"\<close> with a
  resolver that rejects \<open>./b.ts\<close> only, \<open>./a\<close> is extracted, resolves and has no extension,
  and \<open>generate\<close> raises without returning any diagnostic.
\<close>

theorem missing_extension_counterexample:
  "generate (twoImportsServices ''./a'' ''./b.ts'' [''./b.ts'']) ''deno''
     (twoImportsDocument ''./a'' ''./b.ts'') =
   Inl (Rejected ''cannot resolve ./b.ts'') \<and>
   delint (twoImportsTree ''./a'' ''./b.ts'') =
     [\<lparr>node_pos = 13, node_end = 19, node_text = ''./a''\<rparr>,
      \<lparr>node_pos = 33, node_end = 42, node_text = ''./b.ts''\<rparr>] \<and>
   resolveModule (twoImportsServices ''./a'' ''./b.ts'' [''./b.ts'']) ''/project'' ''./a'' =
     Inr \<lparr>filepath = ''/project/./a'', raw = ''./a'', remote = False\<rparr> \<and>
   extensionName ''./a'' = None"
  by (simp add: generate_def delint_def check_defs two_imports_defs)

text \<open>
  C4, amended: when the analysis of a document returns, its result is the diagnostics of
  the extracted references in order, and among those of a reference there is exactly one
  \<open>MissingExtension\<close> diagnostic when its specifier does not end with one of \<open>.ts\<close>,
  \<open>.tsx\<close>, \<open>.js\<close>, \<open>.jsx\<close>, \<open>.json\<close>, \<open>.wasm\<close>, and none when it does; in particular there
  is one when no suffix of the specifier is a dot followed by one or more letters and
  digits (no trailing extension at all); that diagnostic has severity \<open>Error\<close> and the
  range of the reference.
\<close>

theorem missing_extension_iff_not_allowed:
  assumes "languageId document \<in> set [''typescript'', ''typescriptreact'']"
    and "getWorkspaceConfig sv (uri document) = Inr config"
    and "enable config"
    and "createSourceFile sv (uri document) (getText document) = Some sourceFile"
    and "generate sv name document = Inr ds"
  shows "\<exists>f. ds = concat (map f (delint sourceFile)) \<and>
    (\<forall>m \<in> set (delint sourceFile).
       length (filter (\<lambda>d. code d = DiagnosticCode_value MissingExtension) (f m)) =
         (if \<exists>p. \<exists>x \<in> set [''.ts'', ''.tsx'', ''.js'', ''.jsx'', ''.json'', ''.wasm''].
               node_text m = p @ x
          then 0 else 1) \<and>
       ((\<forall>p e. node_text m = p @ CHR ''.'' # e \<longrightarrow>
            e = [] \<or>
            \<not> set e \<subseteq> set ''abcdefghijklmnopqrstuvwxyzABCDEFGHIJKLMNOPQRSTUVWXYZ0123456789'') \<longrightarrow>
        length (filter (\<lambda>d. code d = DiagnosticCode_value MissingExtension) (f m)) = 1) \<and>
       (\<forall>d \<in> set (f m). code d = DiagnosticCode_value MissingExtension \<longrightarrow>
          severity d = Error \<and> diag_range d = moduleRange sv document m))"
    (is "\<exists>f. _ \<and> (\<forall>m \<in> _. ?count f m \<and> ?none f m \<and> ?sev f m)")
proof -
  from assms obtain f where ds: "ds = concat (map f (delint sourceFile))"
    and each: "\<forall>m \<in> set (delint sourceFile).
      generate_body sv name document (dirname sv (uri document)) [] m = Inr (f m)"
    by (rule generate_returns)
  have "\<forall>m \<in> set (delint sourceFile). ?count f m \<and> ?none f m \<and> ?sev f m"
  proof (intro ballI)
    fix m
    assume "m \<in> set (delint sourceFile)"
    with each
    have new: "generate_body sv name document (dirname sv (uri document)) [] m = Inr (f m)"
      by simp
    from generate_body_counts(2) [OF new] have count: "?count f m"
      by (simp only: validExtension_suffix)
    have "\<not> (\<exists>p. \<exists>x \<in> set [''.ts'', ''.tsx'', ''.js'', ''.jsx'', ''.json'', ''.wasm''].
               node_text m = p @ x)"
      if none: "\<forall>p e. node_text m = p @ CHR ''.'' # e \<longrightarrow>
            e = [] \<or>
            \<not> set e \<subseteq> set ''abcdefghijklmnopqrstuvwxyzABCDEFGHIJKLMNOPQRSTUVWXYZ0123456789''"
    proof
      assume "\<exists>p. \<exists>x \<in> set [''.ts'', ''.tsx'', ''.js'', ''.jsx'', ''.json'', ''.wasm''].
               node_text m = p @ x"
      then obtain p x where x: "x \<in> set [''.ts'', ''.tsx'', ''.js'', ''.jsx'', ''.json'', ''.wasm'']"
        and t: "node_text m = p @ x"
        by blast
      from x obtain e where "x = CHR ''.'' # e" "e \<noteq> []"
        "set e \<subseteq> set ''abcdefghijklmnopqrstuvwxyzABCDEFGHIJKLMNOPQRSTUVWXYZ0123456789''"
        by auto
      with t none show False
        by blast
    qed
    with count have "?none f m"
      by simp
    moreover from generate_body_counts(4) [OF new] generate_body_ranges [OF new]
    have "?sev f m"
      by simp
    ultimately show "?count f m \<and> ?none f m \<and> ?sev f m"
      using count by (intro conjI) assumption+
  qed
  with ds show ?thesis
    by (intro exI [of _ f] conjI) assumption+
qed

theorem missing_extension_iff_not_allowed_witness:
  "generate (twoImportsServices ''./a'' ''./b.ts'' []) ''deno''
     (twoImportsDocument ''./a'' ''./b.ts'') =
   Inr [Diagnostic_create
         \<lparr>range_start = \<lparr>line = 0, character = 14\<rparr>, range_end = \<lparr>line = 0, character = 19\<rparr>\<rparr>
         ''Please specify valid extension name of the imported module.''
         Error MissingExtension ''deno'',
        Diagnostic_create
         \<lparr>range_start = \<lparr>line = 0, character = 14\<rparr>, range_end = \<lparr>line = 0, character = 19\<rparr>\<rparr>
         ''Cannot found module `./a`.''
         Error LocalModuleNotExist ''deno'',
        Diagnostic_create
         \<lparr>range_start = \<lparr>line = 0, character = 34\<rparr>, range_end = \<lparr>line = 0, character = 42\<rparr>\<rparr>
         ''Cannot found module `./b.ts`.''
         Error LocalModuleNotExist ''deno''] \<and>
   delint (twoImportsTree ''./a'' ''./b.ts'') =
     [\<lparr>node_pos = 13, node_end = 19, node_text = ''./a''\<rparr>,
      \<lparr>node_pos = 33, node_end = 42, node_text = ''./b.ts''\<rparr>] \<and>
   extensionName ''./a'' = None \<and> extensionName ''./b.ts'' = Some ''.ts''"
  (is "?run \<and> _")
proof -
  have l: "languageId (twoImportsDocument ''./a'' ''./b.ts'') \<in> set [''typescript'', ''typescriptreact'']"
    by (simp add: twoImportsDocument_def)
  have c: "getWorkspaceConfig (twoImportsServices ''./a'' ''./b.ts'' [])
      (uri (twoImportsDocument ''./a'' ''./b.ts'')) = Inr \<lparr>enable = True\<rparr>"
    by (simp add: twoImportsServices_def)
  have e: "enable \<lparr>enable = True\<rparr>"
    by simp
  have p: "createSourceFile (twoImportsServices ''./a'' ''./b.ts'' [])
      (uri (twoImportsDocument ''./a'' ''./b.ts'')) (getText (twoImportsDocument ''./a'' ''./b.ts'')) =
      Some (twoImportsTree ''./a'' ''./b.ts'')"
    by (simp add: twoImportsServices_def twoImportsDocument_def)
  have run: ?run
    by (simp add: generate_def delint_def check_defs two_imports_defs)
  from missing_extension_iff_not_allowed [OF l c e p run] run show ?thesis
    by (simp add: delint_def check_defs two_imports_defs)
qed

text \<open>
  C5, as stated: for every extracted reference with a URL-like specifier a \<open>PreferHTTPS\<close>
  diagnostic is emitted exactly when the specifier does not start with \<open>https://\<close>. The
  code emits nothing when a resolution raises. In
  \<open>import x from "http://x.com/a.ts";import y from "./b.ts"\<close> with a resolver that rejects
  \<open>./b.ts\<close> only, the first specifier is extracted, resolves and starts with \<open>http://\<close>, and
  \<open>generate\<close> raises without returning any diagnostic.
\<close>

theorem prefer_https_counterexample:
  "generate (twoImportsServices ''http://x.com/a.ts'' ''./b.ts'' [''./b.ts'']) ''deno''
     (twoImportsDocument ''http://x.com/a.ts'' ''./b.ts'') =
   Inl (Rejected ''cannot resolve ./b.ts'') \<and>
   delint (twoImportsTree ''http://x.com/a.ts'' ''./b.ts'') =
     [\<lparr>node_pos = 13, node_end = 33, node_text = ''http://x.com/a.ts''\<rparr>,
      \<lparr>node_pos = 47, node_end = 56, node_text = ''./b.ts''\<rparr>] \<and>
   resolveModule (twoImportsServices ''http://x.com/a.ts'' ''./b.ts'' [''./b.ts'']) ''/project'' ''http://x.com/a.ts'' =
     Inr \<lparr>filepath = ''/project/http://x.com/a.ts'', raw = ''http://x.com/a.ts'', remote = True\<rparr> \<and>
   isRemoteModule ''http://x.com/a.ts'' \<and> \<not> isHTTPS ''http://x.com/a.ts''"
  by (simp add: generate_def delint_def check_defs two_imports_defs)

text \<open>
  C5, amended: when the analysis of a document returns, its result is the diagnostics of
  the extracted references in order; among those of a reference whose specifier starts
  with \<open>http://\<close> or \<open>https://\<close> there is exactly one \<open>PreferHTTPS\<close> diagnostic when the
  specifier does not start with \<open>https://\<close> and none when it does, and among those of any
  other reference there is none; that diagnostic has severity \<open>Warning\<close> and the range of
  the reference.
\<close>

theorem prefer_https_iff_insecure_url:
  assumes "languageId document \<in> set [''typescript'', ''typescriptreact'']"
    and "getWorkspaceConfig sv (uri document) = Inr config"
    and "enable config"
    and "createSourceFile sv (uri document) (getText document) = Some sourceFile"
    and "generate sv name document = Inr ds"
  shows "\<exists>f. ds = concat (map f (delint sourceFile)) \<and>
    (\<forall>m \<in> set (delint sourceFile).
       ((\<exists>rest. node_text m = ''http://'' @ rest) \<or> (\<exists>rest. node_text m = ''https://'' @ rest) \<longrightarrow>
          length (filter (\<lambda>d. code d = DiagnosticCode_value PreferHTTPS) (f m)) =
            (if \<exists>rest. node_text m = ''https://'' @ rest then 0 else 1)) \<and>
       (\<not> ((\<exists>rest. node_text m = ''http://'' @ rest) \<or>
           (\<exists>rest. node_text m = ''https://'' @ rest)) \<longrightarrow>
          filter (\<lambda>d. code d = DiagnosticCode_value PreferHTTPS) (f m) = []) \<and>
       (\<forall>d \<in> set (f m). code d = DiagnosticCode_value PreferHTTPS \<longrightarrow>
          severity d = Warning \<and> diag_range d = moduleRange sv document m))"
    (is "\<exists>f. _ \<and> (\<forall>m \<in> _. ?url f m \<and> ?other f m \<and> ?sev f m)")
proof -
  from assms obtain f where ds: "ds = concat (map f (delint sourceFile))"
    and each: "\<forall>m \<in> set (delint sourceFile).
      generate_body sv name document (dirname sv (uri document)) [] m = Inr (f m)"
    by (rule generate_returns)
  have "\<forall>m \<in> set (delint sourceFile). ?url f m \<and> ?other f m \<and> ?sev f m"
  proof (intro ballI)
    fix m
    assume "m \<in> set (delint sourceFile)"
    with each
    have new: "generate_body sv name document (dirname sv (uri document)) [] m = Inr (f m)"
      by simp
    from generate_body_counts(3) [OF new]
    have count: "length (filter (\<lambda>d. code d = DiagnosticCode_value PreferHTTPS) (f m)) =
      (if ((\<exists>rest. node_text m = ''http://'' @ rest) \<or> (\<exists>rest. node_text m = ''https://'' @ rest)) \<and>
          \<not> (\<exists>rest. node_text m = ''https://'' @ rest) then 1 else 0)"
      by (simp only: isRemoteModule_iff isHTTPS_iff)
    then have "?url f m"
      by simp
    moreover from count have "?other f m"
      by (cases "(\<exists>rest. node_text m = ''http://'' @ rest) \<or>
                 (\<exists>rest. node_text m = ''https://'' @ rest)") simp_all
    moreover from generate_body_counts(4) [OF new] generate_body_ranges [OF new]
    have "?sev f m"
      by simp
    ultimately show "?url f m \<and> ?other f m \<and> ?sev f m"
      by (intro conjI) assumption+
  qed
  with ds show ?thesis
    by (intro exI [of _ f] conjI) assumption+
qed

theorem prefer_https_iff_insecure_url_witness:
  "generate (twoImportsServices ''http://x.com/a.ts'' ''https://x.com/a.ts'' []) ''deno''
     (twoImportsDocument ''http://x.com/a.ts'' ''https://x.com/a.ts'') =
   Inr [Diagnostic_create
         \<lparr>range_start = \<lparr>line = 0, character = 14\<rparr>, range_end = \<lparr>line = 0, character = 33\<rparr>\<rparr>
         ''For security, we recommend using the HTTPS module.''
         Warning PreferHTTPS ''deno'',
        Diagnostic_create
         \<lparr>range_start = \<lparr>line = 0, character = 14\<rparr>, range_end = \<lparr>line = 0, character = 33\<rparr>\<rparr>
         ''Cannot found module `http://x.com/a.ts`.''
         Error RemoteModuleNotExist ''deno'',
        Diagnostic_create
         \<lparr>range_start = \<lparr>line = 0, character = 48\<rparr>, range_end = \<lparr>line = 0, character = 68\<rparr>\<rparr>
         ''Cannot found module `https://x.com/a.ts`.''
         Error RemoteModuleNotExist ''deno''] \<and>
   delint (twoImportsTree ''http://x.com/a.ts'' ''https://x.com/a.ts'') =
     [\<lparr>node_pos = 13, node_end = 33, node_text = ''http://x.com/a.ts''\<rparr>,
      \<lparr>node_pos = 47, node_end = 68, node_text = ''https://x.com/a.ts''\<rparr>] \<and>
   \<not> isHTTPS ''http://x.com/a.ts'' \<and> isHTTPS ''https://x.com/a.ts''"
  (is "?run \<and> _")
proof -
  have l: "languageId (twoImportsDocument ''http://x.com/a.ts'' ''https://x.com/a.ts'') \<in> set [''typescript'', ''typescriptreact'']"
    by (simp add: twoImportsDocument_def)
  have c: "getWorkspaceConfig (twoImportsServices ''http://x.com/a.ts'' ''https://x.com/a.ts'' [])
      (uri (twoImportsDocument ''http://x.com/a.ts'' ''https://x.com/a.ts'')) = Inr \<lparr>enable = True\<rparr>"
    by (simp add: twoImportsServices_def)
  have e: "enable \<lparr>enable = True\<rparr>"
    by simp
  have p: "createSourceFile (twoImportsServices ''http://x.com/a.ts'' ''https://x.com/a.ts'' [])
      (uri (twoImportsDocument ''http://x.com/a.ts'' ''https://x.com/a.ts'')) (getText (twoImportsDocument ''http://x.com/a.ts'' ''https://x.com/a.ts'')) =
      Some (twoImportsTree ''http://x.com/a.ts'' ''https://x.com/a.ts'')"
    by (simp add: twoImportsServices_def twoImportsDocument_def)
  have run: ?run
    by (simp add: generate_def delint_def check_defs two_imports_defs)
  from prefer_https_iff_insecure_url [OF l c e p run] run show ?thesis
    by (simp add: delint_def check_defs two_imports_defs)
qed



text \<open>
  C7: \<open>FixItems\<close> has exactly one fix, a title and a command, for each of
  \<open>MissingExtension\<close>, \<open>PreferHTTPS\<close>, \<open>LocalModuleNotExist\<close> and \<open>RemoteModuleNotExist\<close>, and
  none for \<open>InvalidModule\<close>; accordingly the code-action handler answers a diagnostic of
  this server with one action in the first four cases and with none in the last.
\<close>

theorem fix_lookup:
  "FixItems (DiagnosticCode_value k) =
     (case k of
        InvalidModule \<Rightarrow> None
      | MissingExtension \<Rightarrow>
          Some \<lparr>title = ''Add `.ts` extension.'', command = ''deno._add_missing_extension''\<rparr>
      | PreferHTTPS \<Rightarrow>
          Some \<lparr>title = ''Use HTTPS module.'', command = ''deno._use_https_module''\<rparr>
      | LocalModuleNotExist \<Rightarrow>
          Some \<lparr>title = ''Create module.'', command = ''deno._create_local_module''\<rparr>
      | RemoteModuleNotExist \<Rightarrow>
          Some \<lparr>title = ''Fetch module.'', command = ''deno._fetch_remote_module''\<rparr>) \<and>
   (source v = name \<and> code v = DiagnosticCode_value k \<longrightarrow>
      (\<exists>acts. onCodeAction name \<lparr>context_diagnostics = [v], textDocument_uri = u\<rparr> = Some acts \<and>
         length acts = (if k = InvalidModule then 0 else 1)))"
  by (cases k)
    (simp_all add: FixItems_def onCodeAction_def codeActionFor_def List.map_filter_simps)

theorem fix_lookup_witness:
  "FixItems 1003 = Some \<lparr>title = ''Use HTTPS module.'', command = ''deno._use_https_module''\<rparr> \<and>
   (\<exists>acts. onCodeAction ''deno''
        \<lparr>context_diagnostics =
           [Diagnostic_create
              \<lparr>range_start = \<lparr>line = 0, character = 14\<rparr>, range_end = \<lparr>line = 0, character = 33\<rparr>\<rparr>
              ''For security, we recommend using the HTTPS module.''
              Warning PreferHTTPS ''deno''],
         textDocument_uri = ''file:///project/main.ts''\<rparr> = Some acts \<and>
      length acts = 1)"
  using fix_lookup [of PreferHTTPS
      "Diagnostic_create
          \<lparr>range_start = \<lparr>line = 0, character = 14\<rparr>, range_end = \<lparr>line = 0, character = 33\<rparr>\<rparr>
          ''For security, we recommend using the HTTPS module.''
          Warning PreferHTTPS ''deno''"
      "''deno''" "''file:///project/main.ts''"]
  by (simp add: Diagnostic_create_def)

text \<open>
  C8: the actions the handler returns are those of the request's diagnostics that come
  from this server and have a fix, in order, and the arguments of each action's command
  are the document's URI and the diagnostic's range with the start column increased by
  one and the end column decreased by one.
\<close>

theorem command_range_narrowed:
  assumes "onCodeAction name params = Some acts"
  shows "map (\<lambda>a. command_arguments (action_command a)) acts =
    map (\<lambda>v. [ArgUri (textDocument_uri params),
               ArgRange ((diag_range v)
                 \<lparr>range_start := (range_start (diag_range v))
                    \<lparr>character := character (range_start (diag_range v)) + 1\<rparr>,
                  range_end := (range_end (diag_range v))
                    \<lparr>character := character (range_end (diag_range v)) - 1\<rparr>\<rparr>)])
      (filter (\<lambda>v. source v = name \<and> FixItems (code v) \<noteq> None) (context_diagnostics params))"
proof -
  have step: "map (\<lambda>a. command_arguments (action_command a))
        (List.map_filter (codeActionFor name uri) vs) =
      map (\<lambda>v. [ArgUri uri,
               ArgRange ((diag_range v)
                 \<lparr>range_start := (range_start (diag_range v))
                    \<lparr>character := character (range_start (diag_range v)) + 1\<rparr>,
                  range_end := (range_end (diag_range v))
                    \<lparr>character := character (range_end (diag_range v)) - 1\<rparr>\<rparr>)])
        (filter (\<lambda>v. FixItems (code v) \<noteq> None) vs)" for uri vs
    by (induction vs) (auto simp: List.map_filter_simps codeActionFor_def split: option.splits)
  from assms have "acts = List.map_filter (codeActionFor name (textDocument_uri params))
      (filter (\<lambda>v. source v = name) (context_diagnostics params))"
    by (simp add: onCodeAction_def Let_def split: if_splits)
  then show ?thesis
    by (simp only: step filter_filter)
qed

theorem command_range_narrowed_witness:
  "onCodeAction ''deno''
     \<lparr>context_diagnostics =
        [Diagnostic_create
           \<lparr>range_start = \<lparr>line = 0, character = 14\<rparr>, range_end = \<lparr>line = 0, character = 19\<rparr>\<rparr>
           ''Please specify valid extension name of the imported module.''
           Error MissingExtension ''deno'',
         Diagnostic_create
           \<lparr>range_start = \<lparr>line = 0, character = 14\<rparr>, range_end = \<lparr>line = 0, character = 19\<rparr>\<rparr>
           ''Deno only supports importting `relative/HTTP` module.''
           Error InvalidModule ''deno''],
      textDocument_uri = ''file:///project/main.ts''\<rparr> =
   Some [\<lparr>action_title = ''Add `.ts` extension. (deno)'',
          action_command =
            \<lparr>command_title = ''Add `.ts` extension.'',
             command_name = ''deno._add_missing_extension'',
             command_arguments =
               [ArgUri ''file:///project/main.ts'',
                ArgRange \<lparr>range_start = \<lparr>line = 0, character = 15\<rparr>,
                          range_end = \<lparr>line = 0, character = 18\<rparr>\<rparr>]\<rparr>,
          action_kind = QuickFix\<rparr>]"
  (is ?run)
proof -
  have run: ?run
    by (simp add: onCodeAction_def codeActionFor_def FixItems_def Diagnostic_create_def
        List.map_filter_simps)
  from command_range_narrowed [OF run] run show ?thesis
    by simp
qed

text \<open>
  C9: from a tree that has none of the four recognised constructs, such as the tree of
  \<open>const y = require("http://example.com/mod.ts")\<close>, the walk collects no module literal,
  and the analysis of a document with such a tree returns no diagnostic, whatever the
  checks would say about the string passed to \<open>require\<close>.
\<close>

theorem require_call_yields_nothing:
  assumes "noModuleForm sourceFile"
  shows "delint sourceFile = [] \<and>
    (languageId document \<in> set [''typescript'', ''typescriptreact''] \<and>
     getWorkspaceConfig sv (uri document) = Inr config \<and>
     createSourceFile sv (uri document) (getText document) = Some sourceFile \<longrightarrow>
       generate sv name document = Inr [])"
proof -
  from assms have "delint sourceFile = []"
    unfolding delint_def by (rule delintNode_noModuleForm)
  then show ?thesis
    by (simp add: generate_def)
qed

theorem require_call_yields_nothing_witness:
  "noModuleForm requireTree \<and> delint requireTree = [] \<and>
   generate exampleServices ''deno'' requireDocument = Inr [] \<and>
   generate_body exampleServices ''deno'' requireDocument ''/project'' []
      \<lparr>node_pos = 18, node_end = 45, node_text = ''http://example.com/mod.ts''\<rparr> =
    Inr [Diagnostic_create
           \<lparr>range_start = \<lparr>line = 0, character = 18\<rparr>, range_end = \<lparr>line = 0, character = 45\<rparr>\<rparr>
           ''For security, we recommend using the HTTPS module.''
           Warning PreferHTTPS ''deno'',
          Diagnostic_create
           \<lparr>range_start = \<lparr>line = 0, character = 18\<rparr>, range_end = \<lparr>line = 0, character = 45\<rparr>\<rparr>
           ''Cannot found module `http://example.com/mod.ts`.''
           Error RemoteModuleNotExist ''deno'']"
  (is "?plain \<and> _ \<and> _ \<and> ?run")
proof -
  have plain: ?plain
    by (simp add: requireTree_def)
  have h: "languageId requireDocument \<in> set [''typescript'', ''typescriptreact''] \<and>
     getWorkspaceConfig exampleServices (uri requireDocument) = Inr \<lparr>enable = True\<rparr> \<and>
     createSourceFile exampleServices (uri requireDocument) (getText requireDocument) =
       Some requireTree"
    by (simp add: exampleServices_def exampleParser_def requireDocument_def
        requireText_def importText_def)
  have run: ?run
    by (simp add: check_defs example_defs)
  from require_call_yields_nothing [OF plain, of requireDocument exampleServices
      "\<lparr>enable = True\<rparr>" "''deno''"] h plain run
  show ?thesis
    by auto
qed

text \<open>
  C10: the diagnostics emitted for one reference never contain both an \<open>InvalidModule\<close>
  and a \<open>PreferHTTPS\<close> diagnostic, contain at most one of \<open>LocalModuleNotExist\<close> and
  \<open>RemoteModuleNotExist\<close>, and are at most three.
\<close>

theorem at_most_three_per_reference:
  assumes "generate_body sv name document dir ds m = Inr ds'"
  shows "\<exists>new. ds' = ds @ new \<and>
    \<not> ((\<exists>d \<in> set new. code d = DiagnosticCode_value InvalidModule) \<and>
       (\<exists>d \<in> set new. code d = DiagnosticCode_value PreferHTTPS)) \<and>
    length (filter (\<lambda>d. code d = DiagnosticCode_value LocalModuleNotExist \<or>
                         code d = DiagnosticCode_value RemoteModuleNotExist) new) \<le> 1 \<and>
    length new \<le> 3"
    (is "\<exists>new. _ \<and> ?exclusive new \<and> ?existence new \<and> ?three new")
proof -
  from assms obtain new where ds': "ds' = ds @ new"
    and new: "generate_body sv name document dir [] m = Inr new"
    by (rule generate_body_pushed)
  from new obtain md where "resolveModule sv dir (node_text m) = Inr md" and
    kinds: "map (\<lambda>d. (code d, severity d)) new =
      (if \<not> isRelativeModule (node_text m) \<and> \<not> isRemoteModule (node_text m)
       then [(1001, Error)] else []) @
      (if \<not> validExtension (extensionName (node_text m)) then [(1002, Error)] else []) @
      (if isRemoteModule (node_text m) \<and> \<not> isHTTPS (node_text m)
       then [(1003, Warning)] else []) @
      (if \<not> fileExists sv (filepath md)
       then [(if remote md then 1005 else 1004, Error)] else [])"
    by (rule generate_body_kinds)
  have "?exclusive new"
    unfolding exists_code [of new] kinds by auto
  moreover
  have "length (filter (\<lambda>d. code d = DiagnosticCode_value LocalModuleNotExist \<or>
                         code d = DiagnosticCode_value RemoteModuleNotExist) new) =
        length (filter (\<lambda>p. fst p = 1004 \<or> fst p = 1005) (map (\<lambda>d. (code d, severity d)) new))"
    by (induction new) auto
  then have "?existence new"
    unfolding kinds by simp
  moreover
  have "length new = length (map (\<lambda>d. (code d, severity d)) new)"
    by simp
  then have "?three new"
    unfolding kinds by simp
  ultimately show ?thesis
    using ds' by (intro exI [of _ new] conjI) assumption+
qed

theorem at_most_three_per_reference_witness:
  "generate_body exampleServices ''deno'' importDocument ''/project'' []
      \<lparr>node_pos = 13, node_end = 30, node_text = ''http://x.com/a''\<rparr> =
    Inr [Diagnostic_create
           \<lparr>range_start = \<lparr>line = 0, character = 14\<rparr>, range_end = \<lparr>line = 0, character = 30\<rparr>\<rparr>
           ''Please specify valid extension name of the imported module.''
           Error MissingExtension ''deno'',
          Diagnostic_create
           \<lparr>range_start = \<lparr>line = 0, character = 14\<rparr>, range_end = \<lparr>line = 0, character = 30\<rparr>\<rparr>
           ''For security, we recommend using the HTTPS module.''
           Warning PreferHTTPS ''deno'',
          Diagnostic_create
           \<lparr>range_start = \<lparr>line = 0, character = 14\<rparr>, range_end = \<lparr>line = 0, character = 30\<rparr>\<rparr>
           ''Cannot found module `http://x.com/a`.''
           Error RemoteModuleNotExist ''deno''] \<and>
   \<not> isRelativeModule ''http://x.com/a'' \<and> isRemoteModule ''http://x.com/a''"
  (is "?run \<and> _")
proof -
  have run: ?run
    by (simp add: check_defs example_defs)
  from at_most_three_per_reference [OF run] run show ?thesis
    by (simp add: isRelativeModule_def isRemoteModule_def startsWith_def)
qed

end
